theory Spec2Isabelle
  imports Main "HOL-Library.Char_ord" "HOL-Library.List_Lexorder"
begin

section \<open>Go strings\<close>

text \<open>
  A Go string is a sequence of bytes; \<^typ>\<open>string\<close> is a list of 8-bit characters, so
  \<^term>\<open>length s\<close> is Go's \<open>len(s)\<close> and \<^term>\<open>s = []\<close> is \<open>s == ""\<close>.

  \<open>strings.TrimSpace\<close> removes leading and trailing white space as \<open>unicode.IsSpace\<close>
  defines it, decoding UTF-8. The runes of \<open>unicode.IsSpace\<close> are
  U+0009..U+000D, U+0020, U+0085, U+00A0, U+1680, U+2000..U+200A, U+2028, U+2029, U+202F,
  U+205F and U+3000; \<open>spaceRunes\<close> lists their UTF-8 encodings. A rune decoded at the
  front (or at the back) of a string is one of them exactly when the string starts (ends)
  with one of these byte sequences: every other byte sequence decodes to another rune or to
  the error rune, which is not white space.
\<close>

definition spaceRunes :: "string list" where
  "spaceRunes =
     [[CHR 0x09], [CHR 0x0A], [CHR 0x0B], [CHR 0x0C], [CHR 0x0D], [CHR 0x20],
      [CHR 0xC2, CHR 0x85], [CHR 0xC2, CHR 0xA0],
      [CHR 0xE1, CHR 0x9A, CHR 0x80],
      [CHR 0xE2, CHR 0x80, CHR 0x80], [CHR 0xE2, CHR 0x80, CHR 0x81],
      [CHR 0xE2, CHR 0x80, CHR 0x82], [CHR 0xE2, CHR 0x80, CHR 0x83],
      [CHR 0xE2, CHR 0x80, CHR 0x84], [CHR 0xE2, CHR 0x80, CHR 0x85],
      [CHR 0xE2, CHR 0x80, CHR 0x86], [CHR 0xE2, CHR 0x80, CHR 0x87],
      [CHR 0xE2, CHR 0x80, CHR 0x88], [CHR 0xE2, CHR 0x80, CHR 0x89],
      [CHR 0xE2, CHR 0x80, CHR 0x8A],
      [CHR 0xE2, CHR 0x80, CHR 0xA8], [CHR 0xE2, CHR 0x80, CHR 0xA9],
      [CHR 0xE2, CHR 0x80, CHR 0xAF],
      [CHR 0xE2, CHR 0x81, CHR 0x9F],
      [CHR 0xE3, CHR 0x80, CHR 0x80]]"

text \<open>The white-space rune a string starts with, as its encoding.\<close>

definition leadingSpace :: "string \<Rightarrow> string option" where
  "leadingSpace s = List.find (\<lambda>e. take (length e) s = e) spaceRunes"

text \<open>The white-space rune a string ends with, as its encoding.\<close>

definition trailingSpace :: "string \<Rightarrow> string option" where
  "trailingSpace s =
     List.find (\<lambda>e. length e \<le> length s \<and> drop (length s - length e) s = e) spaceRunes"

lemma spaceRunes_nonempty: "e \<in> set spaceRunes \<Longrightarrow> 0 < length e"
  by (auto simp: spaceRunes_def)

lemma leadingSpace_shorter:
  assumes "leadingSpace s = Some e"
  shows "length (drop (length e) s) < length s"
proof -
  from assms have mem: "e \<in> set spaceRunes" and pre: "take (length e) s = e"
    by (auto simp: leadingSpace_def find_Some_iff)
  from mem have pos: "0 < length e" by (rule spaceRunes_nonempty)
  from pre have "length (take (length e) s) = length e" by simp
  then have "length e \<le> length s" by (simp only: length_take)
  with pos show ?thesis by (simp only: length_drop)
qed

lemma trailingSpace_shorter:
  assumes "trailingSpace s = Some e"
  shows "length (take (length s - length e) s) < length s"
proof -
  from assms have mem: "e \<in> set spaceRunes" and le: "length e \<le> length s"
    by (auto simp: trailingSpace_def find_Some_iff)
  from mem have "0 < length e" by (rule spaceRunes_nonempty)
  with le show ?thesis by (simp only: length_take)
qed

function TrimLeft :: "string \<Rightarrow> string" where
  "TrimLeft s =
     (case leadingSpace s of
        None \<Rightarrow> s
      | Some e \<Rightarrow> TrimLeft (drop (length e) s))"
  by pat_completeness auto
termination
  by (relation "measure length") (auto dest: leadingSpace_shorter)

function TrimRight :: "string \<Rightarrow> string" where
  "TrimRight s =
     (case trailingSpace s of
        None \<Rightarrow> s
      | Some e \<Rightarrow> TrimRight (take (length s - length e) s))"
  by pat_completeness auto
termination
  by (relation "measure length") (auto dest: trailingSpace_shorter)

declare TrimLeft.simps [simp del] TrimRight.simps [simp del]

definition TrimSpace :: "string \<Rightarrow> string" where
  "TrimSpace s = TrimRight (TrimLeft s)"

text \<open>
  \<open>strings.ToLower\<close>: on a string of ASCII bytes Go adds \<open>'a' - 'A'\<close> to every byte in
  \<open>'A'..'Z'\<close> and keeps the others. The model does this to every string, so it is Go's
  function on ASCII strings; bytes from 0x80 on are kept as they are (Go would apply the
  Unicode case mapping to the runes they encode).
\<close>

definition lowerByte :: "char \<Rightarrow> char" where
  "lowerByte c =
     (if CHR ''A'' \<le> c \<and> c \<le> CHR ''Z'' then char_of (of_char c + (32::nat)) else c)"

definition ToLower :: "string \<Rightarrow> string" where
  "ToLower s = map lowerByte s"

section \<open>Keys and alias resolution (huggingface.go)\<close>

text \<open>
  \<open>schemas.Key\<close> carries the credential and an optional \<open>HuggingFaceKeyConfig\<close> with the
  map \<open>Deployments\<close> from requested model to deployment. The Go map is an association list
  read with \<^const>\<open>map_of\<close>; \<open>len(m) == 0\<close> is the empty list (a nil map has length 0 too).
\<close>

record HuggingFaceKeyConfig =
  cfg_Deployments :: "(string \<times> string) list"

record Key =
  key_Value :: string
  key_HuggingFaceKeyConfig :: "HuggingFaceKeyConfig option"

definition resolveModelAlias :: "Key \<Rightarrow> string \<Rightarrow> string \<times> bool" where
  "resolveModelAlias key requestedModel =
     (case key_HuggingFaceKeyConfig key of
        None \<Rightarrow> (requestedModel, False)
      | Some cfg \<Rightarrow>
          if length (cfg_Deployments cfg) = 0 then (requestedModel, False)
          else
            (case map_of (cfg_Deployments cfg) requestedModel of
               Some deployment \<Rightarrow>
                 if TrimSpace deployment \<noteq> []
                 then (deployment, deployment \<noteq> requestedModel)
                 else (requestedModel, False)
             | None \<Rightarrow> (requestedModel, False)))"

section \<open>Requests and responses (schemas)\<close>

text \<open>
  The types of package \<open>schemas\<close> are declared outside the files verified here. Each record
  below has the fields the provider's code reads or writes, with the Go types it uses them
  at: a pointer or an interface value is an \<open>option\<close> (\<open>None\<close> is \<open>nil\<close>), a Go \<open>int\<close> an
  \<^typ>\<open>int\<close>. Types the provider only passes along are left opaque.
\<close>

typedecl LogProbs
typedecl RawResponse
typedecl Parameters
typedecl ResponsesInput

text \<open>
  \<open>schemas.RequestType\<close> is a string type with named constants; \<open>UnsetRequestType\<close> is
  the zero value of a response that no request kind was written to.
\<close>

datatype RequestType =
    UnsetRequestType
  | ListModelsRequest
  | TextCompletionRequest
  | TextCompletionStreamRequest
  | ChatCompletionRequest
  | ChatCompletionStreamRequest
  | ResponsesRequest
  | ResponsesStreamRequest
  | EmbeddingRequest

record BifrostResponseExtraFields =
  ef_Provider :: string
  ef_ModelRequested :: string
  ef_ModelDeployment :: string
  ef_RequestType :: RequestType
  ef_Latency :: int
  ef_RawResponse :: "RawResponse option"

record ErrorField =
  errf_Message :: string

record BifrostErrorExtraFields =
  eef_Provider :: string
  eef_ModelRequested :: string
  eef_RequestType :: RequestType

record BifrostError =
  be_IsBifrostError :: bool
  be_StatusCode :: "int option"
  be_Error :: "ErrorField option"
  be_ExtraFields :: BifrostErrorExtraFields

record BifrostLLMUsage =
  usage_PromptTokens :: int
  usage_TotalTokens :: int

record ChatMessageContent =
  cmc_ContentStr :: "string option"

record ChatMessage =
  msg_Content :: "ChatMessageContent option"

record ChatNonStreamResponseChoice =
  nsc_Message :: "ChatMessage option"

record ChatStreamResponseChoiceDelta =
  delta_Content :: "string option"

record ChatStreamResponseChoice =
  sc_Delta :: "ChatStreamResponseChoiceDelta option"

record TextCompletionResponseChoice =
  tcc_Text :: "string option"

record BifrostResponseChoice =
  choice_Index :: int
  choice_FinishReason :: "string option"
  choice_LogProbs :: "LogProbs option"
  choice_TextCompletionResponseChoice :: "TextCompletionResponseChoice option"
  choice_ChatNonStreamResponseChoice :: "ChatNonStreamResponseChoice option"
  choice_ChatStreamResponseChoice :: "ChatStreamResponseChoice option"

record BifrostChatResponse =
  chat_ID :: string
  chat_Object :: string
  chat_Model :: string
  chat_SystemFingerprint :: string
  chat_Choices :: "BifrostResponseChoice list"
  chat_Usage :: "BifrostLLMUsage option"
  chat_ExtraFields :: BifrostResponseExtraFields

record BifrostTextCompletionResponse =
  text_ID :: string
  text_Object :: string
  text_Model :: string
  text_SystemFingerprint :: string
  text_Choices :: "BifrostResponseChoice list"
  text_Usage :: "BifrostLLMUsage option"
  text_ExtraFields :: BifrostResponseExtraFields

record BifrostChatRequest =
  creq_Model :: string
  creq_Input :: "ChatMessage list"
  creq_Params :: "Parameters option"

record BifrostResponsesRequest =
  rreq_Model :: string
  rreq_Input :: "ResponsesInput option"

record BifrostResponsesResponse =
  rresp_Model :: string
  rresp_ExtraFields :: BifrostResponseExtraFields

text \<open>The zero value of \<open>schemas.BifrostResponseChoice\<close>, as \<open>make\<close> fills a slice with.\<close>

definition zeroChoice :: BifrostResponseChoice where
  "zeroChoice =
     \<lparr>choice_Index = 0, choice_FinishReason = None, choice_LogProbs = None,
      choice_TextCompletionResponseChoice = None,
      choice_ChatNonStreamResponseChoice = None,
      choice_ChatStreamResponseChoice = None\<rparr>"

section \<open>Preparing requests and decorating responses (huggingface.go)\<close>

definition prepareChatRequest :: "BifrostChatRequest \<Rightarrow> Key \<Rightarrow> BifrostChatRequest \<times> string" where
  "prepareChatRequest request key =
     (let (resolvedModel, changed) = resolveModelAlias key (creq_Model request) in
      if \<not> changed then (request, resolvedModel)
      else (request\<lparr>creq_Model := resolvedModel\<rparr>, resolvedModel))"

text \<open>
  \<open>decorateResponseMetadata\<close> writes through the pointer \<open>extra\<close>; the model returns the
  record written. Every caller passes the address of a response's \<open>ExtraFields\<close>, which is
  never \<open>nil\<close>, so the \<open>nil\<close> branch (return, nothing written) is never taken.
\<close>

definition decorateResponseMetadata ::
  "BifrostResponseExtraFields \<Rightarrow> string \<Rightarrow> string \<Rightarrow> BifrostResponseExtraFields" where
  "decorateResponseMetadata extra requestedModel resolvedModel =
     (let extra1 = (if requestedModel \<noteq> [] then extra\<lparr>ef_ModelRequested := requestedModel\<rparr>
                    else extra)
      in if resolvedModel \<noteq> [] \<and> resolvedModel \<noteq> requestedModel
         then extra1\<lparr>ef_ModelDeployment := resolvedModel\<rparr>
         else extra1)"

section \<open>Chat response to text-completion response (huggingface.go)\<close>

text \<open>
  The \<open>switch\<close> of the loop body: the first case whose chain of \<open>nil\<close> checks holds gives
  the text. Go evaluates \<open>&&\<close> left to right, so a pointer is only read after its check.
\<close>

definition choiceText :: "BifrostResponseChoice \<Rightarrow> string" where
  "choiceText choice =
     (if choice_ChatNonStreamResponseChoice choice \<noteq> None \<and>
         nsc_Message (the (choice_ChatNonStreamResponseChoice choice)) \<noteq> None \<and>
         msg_Content (the (nsc_Message (the (choice_ChatNonStreamResponseChoice choice)))) \<noteq> None \<and>
         cmc_ContentStr (the (msg_Content (the (nsc_Message
           (the (choice_ChatNonStreamResponseChoice choice)))))) \<noteq> None
      then the (cmc_ContentStr (the (msg_Content (the (nsc_Message
           (the (choice_ChatNonStreamResponseChoice choice)))))))
      else if choice_ChatStreamResponseChoice choice \<noteq> None \<and>
         sc_Delta (the (choice_ChatStreamResponseChoice choice)) \<noteq> None \<and>
         delta_Content (the (sc_Delta (the (choice_ChatStreamResponseChoice choice)))) \<noteq> None
      then the (delta_Content (the (sc_Delta (the (choice_ChatStreamResponseChoice choice)))))
      else [])"

text \<open>
  The loop \<open>for i, choice := range chatResp.Choices\<close>, writing \<open>textResp.Choices[i]\<close>;
  \<open>out\<close> is the slice written so far.
\<close>

fun convertChoices ::
  "nat \<Rightarrow> BifrostResponseChoice list \<Rightarrow> BifrostResponseChoice list \<Rightarrow> BifrostResponseChoice list" where
  "convertChoices i [] out = out"
| "convertChoices i (choice # rest) out =
     convertChoices (Suc i) rest
       (out[i :=
          \<lparr>choice_Index = choice_Index choice,
           choice_FinishReason = choice_FinishReason choice,
           choice_LogProbs = choice_LogProbs choice,
           choice_TextCompletionResponseChoice = Some \<lparr>tcc_Text = Some (choiceText choice)\<rparr>,
           choice_ChatNonStreamResponseChoice = None,
           choice_ChatStreamResponseChoice = None\<rparr>])"

definition convertChatToTextResponse ::
  "BifrostChatResponse option \<Rightarrow> string \<Rightarrow> string \<Rightarrow> BifrostTextCompletionResponse option" where
  "convertChatToTextResponse chatResp requestedModel resolvedModel =
     (case chatResp of
        None \<Rightarrow> None
      | Some c \<Rightarrow>
          Some
            \<lparr>text_ID = chat_ID c,
             text_Object = ''text_completion'',
             text_Model = chat_Model c,
             text_SystemFingerprint = chat_SystemFingerprint c,
             text_Choices =
               convertChoices 0 (chat_Choices c) (replicate (length (chat_Choices c)) zeroChoice),
             text_Usage = chat_Usage c,
             text_ExtraFields =
               \<lparr>ef_Provider = ef_Provider (chat_ExtraFields c),
                ef_ModelRequested = requestedModel,
                ef_ModelDeployment = resolvedModel,
                ef_RequestType = TextCompletionRequest,
                ef_Latency = ef_Latency (chat_ExtraFields c),
                ef_RawResponse = ef_RawResponse (chat_ExtraFields c)\<rparr>\<rparr>)"

section \<open>Text completion over the chat endpoint (text.go)\<close>

record BifrostTextCompletionRequest =
  treq_Model :: string
  treq_Input :: string
  treq_Params :: "Parameters option"

text \<open>
  Modelled from the spec: \<open>ToBifrostChatRequest\<close> is a method of package \<open>schemas\<close>, which
  is not among the files verified here, and so is the payload of
  \<open>schemas.BifrostTextCompletionRequest\<close>. The spec (4.2): the text-completion request
  carries a model name, a prompt and optional sampling parameters; "the prompt becomes a
  single message; sampling parameters are copied unchanged".
\<close>

definition ToBifrostChatRequest :: "BifrostTextCompletionRequest \<Rightarrow> BifrostChatRequest" where
  "ToBifrostChatRequest r =
     \<lparr>creq_Model = treq_Model r,
      creq_Input = [\<lparr>msg_Content = Some \<lparr>cmc_ContentStr = Some (treq_Input r)\<rparr>\<rparr>],
      creq_Params = treq_Params r\<rparr>"

definition convertTextToChatRequest :: "BifrostTextCompletionRequest \<Rightarrow> BifrostChatRequest" where
  "convertTextToChatRequest textReq = ToBifrostChatRequest textReq"

text \<open>
  The operations take what the provider gets from outside as parameters: \<open>allowed\<close> is the
  result of \<open>CheckOperationAllowed\<close> (\<open>None\<close>: allowed), \<open>transport\<close> is the
  OpenAI-compatible handler, as a function of the request it is handed.
\<close>

definition TextCompletion ::
  "BifrostError option \<Rightarrow> (BifrostChatRequest \<Rightarrow> BifrostError + BifrostChatResponse) \<Rightarrow>
   Key \<Rightarrow> BifrostTextCompletionRequest \<Rightarrow> BifrostError + BifrostTextCompletionResponse option" where
  "TextCompletion allowed transport key request =
     (case allowed of
        Some err \<Rightarrow> Inl err
      | None \<Rightarrow>
          (let chatRequest = convertTextToChatRequest request;
               (effectiveChatRequest, resolvedModel) = prepareChatRequest chatRequest key
           in case transport effectiveChatRequest of
                Inl bifrostErr \<Rightarrow> Inl bifrostErr
              | Inr chatResponse \<Rightarrow>
                  Inr (convertChatToTextResponse (Some chatResponse) (treq_Model request)
                         resolvedModel)))"

text \<open>
  A message of the stream: the fields the relay reads and writes; the record scheme stands
  for the other fields of \<open>schemas.BifrostStream\<close>, which the relay leaves as they are.
\<close>

record BifrostStream =
  stream_BifrostTextCompletionResponse :: "BifrostTextCompletionResponse option"
  stream_BifrostChatResponse :: "BifrostChatResponse option"

text \<open>The body of the relay's loop for a message that is not \<open>nil\<close>.\<close>

definition relayMessage ::
  "string \<Rightarrow> string \<Rightarrow> 'a BifrostStream_scheme \<Rightarrow> 'a BifrostStream_scheme" where
  "relayMessage requestModel resolvedModel streamMsg =
     (case stream_BifrostChatResponse streamMsg of
        None \<Rightarrow> streamMsg
      | Some chatResp \<Rightarrow>
          (case convertChatToTextResponse (Some chatResp) requestModel resolvedModel of
             None \<Rightarrow> streamMsg
           | Some textResp \<Rightarrow>
               (let textResp1 = textResp\<lparr>text_ExtraFields :=
                      (text_ExtraFields textResp)\<lparr>ef_RequestType := TextCompletionStreamRequest\<rparr>\<rparr>;
                    textResp2 = textResp1\<lparr>text_ExtraFields :=
                      decorateResponseMetadata (text_ExtraFields textResp1) requestModel
                        resolvedModel\<rparr>
                in streamMsg\<lparr>stream_BifrostTextCompletionResponse := Some textResp2,
                             stream_BifrostChatResponse := None\<rparr>)))"

text \<open>
  What the relay does to its output channel, in order: \<open>Send m\<close> for \<open>textStream <- m\<close>,
  \<open>Close\<close> for \<open>close(textStream)\<close>. The upstream channel delivers pointers, so a message
  is an \<open>option\<close>; \<open>relayLoop\<close> is \<open>for streamMsg := range chatStream\<close> over the messages
  delivered before the upstream closes, \<open>out\<close> the events so far. The deferred \<open>close\<close>
  runs when the loop ends. The capacity of the output channel (that of the upstream, and
  at least 1) decides when a send blocks, not what is sent, and is left out.
\<close>

datatype 'm chan_event = Send 'm | Close

fun relayLoop ::
  "string \<Rightarrow> string \<Rightarrow> 'a BifrostStream_scheme option list \<Rightarrow>
   'a BifrostStream_scheme chan_event list \<Rightarrow> 'a BifrostStream_scheme chan_event list" where
  "relayLoop requestModel resolvedModel [] out = out"
| "relayLoop requestModel resolvedModel (streamMsg # rest) out =
     (case streamMsg of
        None \<Rightarrow> relayLoop requestModel resolvedModel rest out
      | Some m \<Rightarrow>
          relayLoop requestModel resolvedModel rest
            (out @ [Send (relayMessage requestModel resolvedModel m)]))"

definition textStreamRelay ::
  "string \<Rightarrow> string \<Rightarrow> 'a BifrostStream_scheme option list \<Rightarrow>
   'a BifrostStream_scheme chan_event list" where
  "textStreamRelay requestModel resolvedModel chatStream =
     relayLoop requestModel resolvedModel chatStream [] @ [Close]"

text \<open>
  \<open>TextCompletionStream\<close>: \<open>transport\<close> gives the upstream chat stream (the messages it
  delivers before it closes) or an error; the result is the trace of the output channel.
\<close>

definition TextCompletionStream ::
  "BifrostError option \<Rightarrow>
   (BifrostChatRequest \<Rightarrow> BifrostError + 'a BifrostStream_scheme option list) \<Rightarrow>
   Key \<Rightarrow> BifrostTextCompletionRequest \<Rightarrow>
   BifrostError + 'a BifrostStream_scheme chan_event list" where
  "TextCompletionStream allowed transport key request =
     (case allowed of
        Some err \<Rightarrow> Inl err
      | None \<Rightarrow>
          (let chatRequest = convertTextToChatRequest request;
               (effectiveChatRequest, resolvedModel) = prepareChatRequest chatRequest key
           in case transport effectiveChatRequest of
                Inl bifrostErr \<Rightarrow> Inl bifrostErr
              | Inr chatStream \<Rightarrow>
                  Inr (textStreamRelay (treq_Model request) resolvedModel chatStream)))"

text \<open>The number of times a channel is closed.\<close>

fun closes :: "'m chan_event list \<Rightarrow> nat" where
  "closes [] = 0"
| "closes (Send m # es) = closes es"
| "closes (Close # es) = Suc (closes es)"

text \<open>The messages sent on a channel, in order.\<close>

fun sentMessages :: "'m chan_event list \<Rightarrow> 'm list" where
  "sentMessages [] = []"
| "sentMessages (Send m # es) = m # sentMessages es"
| "sentMessages (Close # es) = sentMessages es"

section \<open>Chat completion\<close>

definition ChatCompletion ::
  "BifrostError option \<Rightarrow> (BifrostChatRequest \<Rightarrow> BifrostError + BifrostChatResponse) \<Rightarrow>
   Key \<Rightarrow> BifrostChatRequest \<Rightarrow> BifrostError + BifrostChatResponse" where
  "ChatCompletion allowed transport key request =
     (case allowed of
        Some err \<Rightarrow> Inl err
      | None \<Rightarrow>
          (let (effectiveRequest, resolvedModel) = prepareChatRequest request key
           in case transport effectiveRequest of
                Inl bifrostErr \<Rightarrow> Inl bifrostErr
              | Inr response \<Rightarrow>
                  Inr (response\<lparr>chat_ExtraFields :=
                         decorateResponseMetadata (chat_ExtraFields response)
                           (creq_Model request) resolvedModel\<rparr>)))"

section \<open>Embeddings (feature extraction)\<close>

text \<open>
  Modelled from the spec: \<open>schemas.EmbeddingParameters\<close> is declared outside the files
  verified here. The spec (4.2) names the optional parameters of an embedding request:
  "optional normalize/prompt-name/truncate parameters".
\<close>

record EmbeddingParameters =
  ep_Normalize :: "bool option"
  ep_PromptName :: "string option"
  ep_Truncate :: "bool option"

text \<open>\<open>Texts\<close> is a slice, \<open>nil\<close> or not: an \<open>option\<close> of a list.\<close>

record EmbeddingInput =
  ein_Text :: "string option"
  ein_Texts :: "string list option"

record BifrostEmbeddingRequest =
  ereq_Model :: string
  ereq_Input :: "EmbeddingInput option"
  ereq_Params :: "EmbeddingParameters option"

text \<open>\<open>Inputs interface{}\<close>: \<open>nil\<close>, a string or a slice of strings.\<close>

datatype Inputs = InputsNil | InputsString string | InputsList "string list"

record huggingFaceEmbeddingRequest =
  hf_Inputs :: Inputs
  hf_Normalize :: "bool option"
  hf_PromptName :: "string option"
  hf_Truncate :: "bool option"
  hf_TruncDirection :: "string option"

typedecl float32

record EmbeddingStruct =
  es_EmbeddingArray :: "float32 list"

record EmbeddingData =
  ed_Object :: string
  ed_Index :: int
  ed_Embedding :: EmbeddingStruct

record BifrostEmbeddingResponse =
  eresp_Object :: string
  eresp_Data :: "EmbeddingData list"
  eresp_Model :: string
  eresp_Usage :: "BifrostLLMUsage option"
  eresp_ExtraFields :: BifrostResponseExtraFields

definition prepareEmbeddingRequest ::
  "BifrostEmbeddingRequest \<Rightarrow> Key \<Rightarrow> BifrostEmbeddingRequest \<times> string" where
  "prepareEmbeddingRequest request key =
     (let (resolvedModel, changed) = resolveModelAlias key (ereq_Model request) in
      if \<not> changed then (request, resolvedModel)
      else (request\<lparr>ereq_Model := resolvedModel\<rparr>, resolvedModel))"

text \<open>
  The block \<open>if request.Params != nil\<close> holds comments only, so the parameters of the
  wire request keep their zero value.
\<close>

definition convertToHuggingFaceEmbeddingRequest ::
  "BifrostEmbeddingRequest \<Rightarrow> huggingFaceEmbeddingRequest" where
  "convertToHuggingFaceEmbeddingRequest request =
     (let hfReq = \<lparr>hf_Inputs = InputsNil, hf_Normalize = None, hf_PromptName = None,
                    hf_Truncate = None, hf_TruncDirection = None\<rparr>
      in case ereq_Input request of
           None \<Rightarrow> hfReq
         | Some inp \<Rightarrow>
             (case ein_Text inp of
                Some text \<Rightarrow> hfReq\<lparr>hf_Inputs := InputsString text\<rparr>
              | None \<Rightarrow>
                  (case ein_Texts inp of
                     Some texts \<Rightarrow> hfReq\<lparr>hf_Inputs := InputsList texts\<rparr>
                   | None \<Rightarrow> hfReq)))"

text \<open>
  The loop \<open>count += len(text) / 4\<close> over \<open>Texts\<close>. A Go \<open>int\<close> has 64 bits; the lengths
  are those of strings held in memory together, so the sum stays below \<open>2^63\<close> and
  \<^typ>\<open>int\<close> computes what Go computes.
\<close>

fun countTexts :: "string list \<Rightarrow> int \<Rightarrow> int" where
  "countTexts [] count = count"
| "countTexts (text # rest) count = countTexts rest (count + int (length text) div 4)"

definition estimateTokens :: "BifrostEmbeddingRequest \<Rightarrow> int" where
  "estimateTokens request =
     (case ereq_Input request of
        None \<Rightarrow> 0
      | Some inp \<Rightarrow>
          (let count =
                 (case ein_Text inp of
                    Some text \<Rightarrow> int (length text) div 4
                  | None \<Rightarrow>
                      (case ein_Texts inp of
                         Some texts \<Rightarrow> countTexts texts 0
                       | None \<Rightarrow> 0))
           in if count = 0 then 1 else count))"

text \<open>The loop \<open>for i, embedding := range embeddings\<close>, appending to \<open>response.Data\<close>.\<close>

fun appendEmbeddings :: "nat \<Rightarrow> float32 list list \<Rightarrow> EmbeddingData list \<Rightarrow> EmbeddingData list" where
  "appendEmbeddings i [] data = data"
| "appendEmbeddings i (embedding # rest) data =
     appendEmbeddings (Suc i) rest
       (data @ [\<lparr>ed_Object = ''embedding'', ed_Index = int i,
                 ed_Embedding = \<lparr>es_EmbeddingArray = embedding\<rparr>\<rparr>])"

definition zeroExtraFields :: BifrostResponseExtraFields where
  "zeroExtraFields =
     \<lparr>ef_Provider = [], ef_ModelRequested = [], ef_ModelDeployment = [],
      ef_RequestType = UnsetRequestType, ef_Latency = 0, ef_RawResponse = None\<rparr>"

definition convertFromHuggingFaceEmbeddingResponse ::
  "float32 list list option \<Rightarrow> BifrostEmbeddingRequest \<Rightarrow> BifrostEmbeddingResponse" where
  "convertFromHuggingFaceEmbeddingResponse hfResponse request =
     (let response = \<lparr>eresp_Object = ''list'', eresp_Data = [], eresp_Model = [],
                       eresp_Usage = None, eresp_ExtraFields = zeroExtraFields\<rparr>
      in case hfResponse of
           None \<Rightarrow> response
         | Some embeddings \<Rightarrow>
             if length embeddings = 0 then response
             else
               (let totalTokens = estimateTokens request
                in response
                     \<lparr>eresp_Data := appendEmbeddings 0 embeddings (eresp_Data response),
                      eresp_Usage := Some \<lparr>usage_PromptTokens = totalTokens,
                                           usage_TotalTokens = totalTokens\<rparr>\<rparr>))"

definition TrimSuffix :: "string \<Rightarrow> string \<Rightarrow> string" where
  "TrimSuffix s suffix =
     (if length suffix \<le> length s \<and> drop (length s - length suffix) s = suffix
      then take (length s - length suffix) s else s)"

text \<open>The URL of the feature-extraction endpoint, as \<open>Embedding\<close> builds it.\<close>

definition embeddingURL :: "string \<Rightarrow> string \<Rightarrow> string" where
  "embeddingURL baseURL resolvedModel =
     TrimSuffix baseURL ''/v1'' @ ''/hf-inference/models/'' @ resolvedModel @
       ''/pipeline/feature-extraction''"

text \<open>
  \<open>Embedding\<close>: \<open>transport\<close> stands for sending the request to the URL and decoding the
  answer; it gives an error (among them what \<open>parseHuggingFaceEmbeddingError\<close> makes of a
  status other than 200) or the decoded vectors, the latency in milliseconds and the raw
  response. \<open>providerKey\<close> is \<open>GetProviderKey()\<close>, \<open>sendRaw\<close> is \<open>shouldSendRawResponse\<close>.
\<close>

definition Embedding ::
  "BifrostError option \<Rightarrow> string \<Rightarrow> string \<Rightarrow> bool \<Rightarrow>
   (string \<Rightarrow> huggingFaceEmbeddingRequest \<Rightarrow>
      BifrostError + (float32 list list \<times> int \<times> RawResponse option)) \<Rightarrow>
   Key \<Rightarrow> BifrostEmbeddingRequest \<Rightarrow> BifrostError + BifrostEmbeddingResponse" where
  "Embedding allowed baseURL providerKey sendRaw transport key request =
     (case allowed of
        Some err \<Rightarrow> Inl err
      | None \<Rightarrow>
          (let (effectiveRequest, resolvedModel) = prepareEmbeddingRequest request key;
               url = embeddingURL baseURL resolvedModel;
               hfRequest = convertToHuggingFaceEmbeddingRequest effectiveRequest
           in case transport url hfRequest of
                Inl bifrostErr \<Rightarrow> Inl bifrostErr
              | Inr (hfResponse, latency, rawResponse) \<Rightarrow>
                  (let response = convertFromHuggingFaceEmbeddingResponse (Some hfResponse) request;
                       extra = (eresp_ExtraFields response)
                                 \<lparr>ef_Provider := providerKey,
                                  ef_RequestType := EmbeddingRequest,
                                  ef_Latency := latency\<rparr>;
                       extra1 = (if sendRaw then extra\<lparr>ef_RawResponse := rawResponse\<rparr>
                                 else extra)
                   in Inr (response
                        \<lparr>eresp_Model := resolvedModel,
                         eresp_ExtraFields :=
                           decorateResponseMetadata extra1 (ereq_Model request)
                             resolvedModel\<rparr>))))"

section \<open>Responses (responses.go)\<close>

text \<open>
  \<open>Responses\<close> resolves the alias through an embedding request that holds the model only
  (\<open>effectiveRequest\<close> is never \<open>nil\<close>, so \<open>model\<close> is its model), and hands \<open>request\<close>
  itself to the handler.
\<close>

definition Responses ::
  "BifrostError option \<Rightarrow>
   (BifrostResponsesRequest \<Rightarrow> BifrostError + BifrostResponsesResponse) \<Rightarrow>
   Key \<Rightarrow> BifrostResponsesRequest \<Rightarrow> BifrostError + BifrostResponsesResponse" where
  "Responses allowed transport key request =
     (case allowed of
        Some err \<Rightarrow> Inl err
      | None \<Rightarrow>
          (let (effectiveRequest, _) =
                 prepareEmbeddingRequest
                   \<lparr>ereq_Model = rreq_Model request, ereq_Input = None, ereq_Params = None\<rparr> key;
               model = ereq_Model effectiveRequest
           in case transport request of
                Inl bifrostErr \<Rightarrow> Inl bifrostErr
              | Inr response \<Rightarrow>
                  Inr (response\<lparr>rresp_ExtraFields :=
                         decorateResponseMetadata (rresp_ExtraFields response)
                           (rreq_Model request) model\<rparr>)))"

section \<open>Upstream errors (models.go and the embedding error parser)\<close>

text \<open>
  \<open>huggingFaceErrorResponse\<close> is the error body as the JSON decoder leaves it: a field the
  body does not give, or a body that does not decode, leaves the empty string.
\<close>

record huggingFaceErrorResponse =
  err_Error :: string
  err_Message :: string

text \<open>
  \<open>handleModelHubError\<close>: \<open>providerKey\<close> is \<open>GetProviderKey()\<close>; \<open>statusCode\<close> and \<open>body\<close>
  are those of the response, \<open>apiError\<close> is the body decoded.
\<close>

definition handleModelHubError ::
  "string \<Rightarrow> int \<Rightarrow> string \<Rightarrow> huggingFaceErrorResponse \<Rightarrow> BifrostError" where
  "handleModelHubError providerKey statusCode body apiError =
     (let message = TrimSpace (err_Message apiError);
          message1 = (if message = [] then TrimSpace (err_Error apiError) else message);
          message2 = (if message1 = [] then ''unexpected Hugging Face response: '' @ body
                      else message1)
      in \<lparr>be_IsBifrostError = False,
          be_StatusCode = Some statusCode,
          be_Error = Some \<lparr>errf_Message = message2\<rparr>,
          be_ExtraFields =
            \<lparr>eef_Provider = providerKey, eef_ModelRequested = [],
             eef_RequestType = ListModelsRequest\<rparr>\<rparr>)"

text \<open>
  \<open>parseHuggingFaceEmbeddingError\<close>: \<open>bifrostErr\<close> is what \<open>HandleProviderAPIError\<close> returns
  for the response and \<open>errorResp\<close> the body it decoded; \<open>huggingFace\<close> is the constant
  \<open>schemas.HuggingFace\<close>.
\<close>

definition parseHuggingFaceEmbeddingError ::
  "string \<Rightarrow> BifrostError \<Rightarrow> huggingFaceErrorResponse \<Rightarrow> string \<Rightarrow> BifrostError" where
  "parseHuggingFaceEmbeddingError huggingFace bifrostErr errorResp model =
     (let bifrostErr1 =
            (if err_Error errorResp \<noteq> [] \<or> err_Message errorResp \<noteq> []
             then
               (let message = err_Error errorResp;
                    message1 = (if message = [] then err_Message errorResp else message)
                in bifrostErr\<lparr>be_Error := Some \<lparr>errf_Message = message1\<rparr>\<rparr>)
             else bifrostErr)
      in bifrostErr1\<lparr>be_ExtraFields :=
           \<lparr>eef_Provider = huggingFace, eef_ModelRequested = model,
            eef_RequestType = EmbeddingRequest\<rparr>\<rparr>)"

section \<open>The model catalog (text.go, models.go)\<close>

record huggingFaceModelCardData =
  card_ModelName :: string
  card_ShortDescription :: string
  card_Description :: string
  card_Summary :: string

record huggingFaceModelHubEntry =
  hub_ID :: string
  hub_ModelID :: string
  hub_Author :: string
  hub_PipelineTag :: string
  hub_Tags :: "string list"
  hub_Private :: bool
  hub_Gated :: bool
  hub_CardData :: huggingFaceModelCardData

record Architecture =
  arch_Modality :: "string option"

text \<open>
  \<open>deriveSupportedMethods\<close> collects request types in a map used as a set and returns
  their names as a sorted slice, \<open>nil\<close> when there is none. The names are constants of
  package \<open>schemas\<close>; the model keeps the set of request types, and \<open>len(supported) == 0\<close>
  is the empty set.
\<close>

record Model =
  model_ID :: string
  model_CanonicalSlug :: "string option"
  model_Name :: "string option"
  model_Deployment :: "string option"
  model_SupportedMethods :: "RequestType set"
  model_HuggingFaceID :: "string option"
  model_OwnedBy :: "string option"
  model_Description :: "string option"
  model_Architecture :: "Architecture option"

definition modelHubBaseURL :: string where
  "modelHubBaseURL = ''https://huggingface.co''"

definition addMethods :: "RequestType list \<Rightarrow> RequestType set \<Rightarrow> RequestType set" where
  "addMethods methods methodsSet = fold insert methods methodsSet"

text \<open>The loop over the tags, with its \<open>switch\<close> on the lower-cased tag.\<close>

fun tagMethods :: "string list \<Rightarrow> RequestType set \<Rightarrow> RequestType set" where
  "tagMethods [] methodsSet = methodsSet"
| "tagMethods (tag # rest) methodsSet =
     tagMethods rest
       (if ToLower tag \<in> set [''text-embedding'', ''sentence-similarity'', ''feature-extraction'',
                                ''embeddings'']
        then addMethods [EmbeddingRequest] methodsSet
        else if ToLower tag \<in> set [''text-generation'', ''summarization'', ''conversational'',
                                     ''chat-completion'']
        then addMethods [ChatCompletionRequest, TextCompletionRequest, ResponsesRequest] methodsSet
        else methodsSet)"

definition deriveSupportedMethods :: "string \<Rightarrow> string list \<Rightarrow> RequestType set" where
  "deriveSupportedMethods pipeline tags =
     (let normalized = TrimSpace (ToLower pipeline);
          methodsSet =
            (if normalized \<in> set [''text-generation'', ''text2text-generation'', ''summarization'',
                                    ''conversational'', ''chat-completion'']
             then addMethods [ChatCompletionRequest, TextCompletionRequest, ResponsesRequest] {}
             else if normalized \<in> set [''text-embedding'', ''sentence-similarity'',
                                          ''feature-extraction'', ''embeddings'']
             then addMethods [EmbeddingRequest] {}
             else {})
      in tagMethods tags methodsSet)"

text \<open>One entry of the loop of \<open>convertHubEntriesToModels\<close>: the model appended, if any.\<close>

definition hubEntryToModel :: "string \<Rightarrow> huggingFaceModelHubEntry \<Rightarrow> Model option" where
  "hubEntryToModel provider entry =
     (if hub_ModelID entry = [] then None
      else
        (let supported = deriveSupportedMethods (hub_PipelineTag entry) (hub_Tags entry)
         in if supported = {} then None
            else
              (let identifier = provider @ ''/'' @ hub_ModelID entry;
                   canonical = modelHubBaseURL @ ''/'' @ hub_ModelID entry;
                   description = card_Description (hub_CardData entry);
                   description1 = (if description = []
                                   then card_ShortDescription (hub_CardData entry)
                                   else description);
                   description2 = (if description1 = []
                                   then card_Summary (hub_CardData entry)
                                   else description1);
                   name = card_ModelName (hub_CardData entry);
                   name1 = (if name = [] then hub_ModelID entry else name)
               in Some
                    \<lparr>model_ID = identifier,
                     model_CanonicalSlug = Some canonical,
                     model_Name = Some name1,
                     model_Deployment = Some (hub_ModelID entry),
                     model_SupportedMethods = supported,
                     model_HuggingFaceID = Some (hub_ModelID entry),
                     model_OwnedBy =
                       (if hub_Author entry \<noteq> [] then Some (hub_Author entry) else None),
                     model_Description =
                       (if description2 \<noteq> [] then Some description2 else None),
                     model_Architecture =
                       (if hub_PipelineTag entry \<noteq> []
                        then Some \<lparr>arch_Modality = Some (hub_PipelineTag entry)\<rparr>
                        else None)\<rparr>)))"

fun hubEntriesLoop :: "string \<Rightarrow> huggingFaceModelHubEntry list \<Rightarrow> Model list \<Rightarrow> Model list" where
  "hubEntriesLoop provider [] models = models"
| "hubEntriesLoop provider (entry # rest) models =
     (case hubEntryToModel provider entry of
        None \<Rightarrow> hubEntriesLoop provider rest models
      | Some model \<Rightarrow> hubEntriesLoop provider rest (models @ [model]))"

text \<open>
  \<open>slices.SortFunc\<close> with \<open>strings.Compare\<close> on the ids: the order on \<^typ>\<open>string\<close> is
  the lexicographic order of the bytes. \<^const>\<open>sort_key\<close> keeps models of equal id in their
  order; Go's sort promises no order among them.
\<close>

definition convertHubEntriesToModels ::
  "huggingFaceModelHubEntry list \<Rightarrow> string \<Rightarrow> Model list" where
  "convertHubEntriesToModels entries provider =
     sort_key model_ID (hubEntriesLoop provider entries [])"

section \<open>Notions the properties are stated with\<close>

text \<open>
  A string of white space only: white-space runes one after the other, none for the empty
  string.
\<close>

definition whiteSpaceOnly :: "string \<Rightarrow> bool" where
  "whiteSpaceOnly s = (\<exists>ws. set ws \<subseteq> set spaceRunes \<and> s = concat ws)"

text \<open>The number of bytes of the UTF-8 encoding that starts with the byte of a white-space rune.\<close>

definition runeWidth :: "char \<Rightarrow> nat" where
  "runeWidth c =
     (if c = CHR 0xC2 then 2
      else if c = CHR 0xE1 \<or> c = CHR 0xE2 \<or> c = CHR 0xE3 then 3
      else 1)"

text \<open>The choice the loop of \<open>convertChatToTextResponse\<close> writes for a chat choice.\<close>

definition textChoice :: "BifrostResponseChoice \<Rightarrow> BifrostResponseChoice" where
  "textChoice choice =
     \<lparr>choice_Index = choice_Index choice,
      choice_FinishReason = choice_FinishReason choice,
      choice_LogProbs = choice_LogProbs choice,
      choice_TextCompletionResponseChoice = Some \<lparr>tcc_Text = Some (choiceText choice)\<rparr>,
      choice_ChatNonStreamResponseChoice = None,
      choice_ChatStreamResponseChoice = None\<rparr>"

text \<open>
  The content string of a choice's final message and the content of its delta, each
  \<open>None\<close> when a pointer on the way to it is \<open>nil\<close>.
\<close>

definition messageContent :: "BifrostResponseChoice \<Rightarrow> string option" where
  "messageContent choice =
     Option.bind (choice_ChatNonStreamResponseChoice choice)
       (\<lambda>ns. Option.bind (nsc_Message ns) (\<lambda>m. Option.bind (msg_Content m) cmc_ContentStr))"

definition deltaContent :: "BifrostResponseChoice \<Rightarrow> string option" where
  "deltaContent choice =
     Option.bind (choice_ChatStreamResponseChoice choice)
       (\<lambda>sc. Option.bind (sc_Delta sc) delta_Content)"

text \<open>The messages of an upstream stream that are not \<open>nil\<close>, in order.\<close>

fun delivered :: "'a option list \<Rightarrow> 'a list" where
  "delivered [] = []"
| "delivered (None # ms) = delivered ms"
| "delivered (Some m # ms) = m # delivered ms"

text \<open>All inputs of an embedding request: the single string, or the strings of the list.\<close>

definition requestInputs :: "BifrostEmbeddingRequest \<Rightarrow> string list" where
  "requestInputs request =
     (case ereq_Input request of
        None \<Rightarrow> []
      | Some inp \<Rightarrow>
          (case ein_Text inp of
             Some str \<Rightarrow> [str]
           | None \<Rightarrow> (case ein_Texts inp of Some strs \<Rightarrow> strs | None \<Rightarrow> [])))"

text \<open>
  The token estimate in the spec's words, to compare \<open>estimateTokens\<close> with:
  \<open>max(1, totalCharacters / 4)\<close> across all inputs.
\<close>

definition specEstimate :: "BifrostEmbeddingRequest \<Rightarrow> int" where
  "specEstimate request = max 1 (int (sum_list (map length (requestInputs request))) div 4)"

section \<open>Example inputs\<close>

definition noAliasKey :: Key where
  "noAliasKey = \<lparr>key_Value = ''k'', key_HuggingFaceKeyConfig = None\<rparr>"

definition aliasKey :: Key where
  "aliasKey =
     \<lparr>key_Value = ''k'',
      key_HuggingFaceKeyConfig = Some \<lparr>cfg_Deployments = [(''a'', ''b'')]\<rparr>\<rparr>"

definition emptyAliasKey :: Key where
  "emptyAliasKey =
     \<lparr>key_Value = ''k'',
      key_HuggingFaceKeyConfig = Some \<lparr>cfg_Deployments = [(''a'', [])]\<rparr>\<rparr>"

definition blankAliasKey :: Key where
  "blankAliasKey =
     \<lparr>key_Value = ''k'',
      key_HuggingFaceKeyConfig =
        Some \<lparr>cfg_Deployments = [(''a'', [CHR 0x20, CHR 0x09, CHR 0xC2, CHR 0xA0])]\<rparr>\<rparr>"

definition hiThere :: BifrostChatResponse where
  "hiThere =
     \<lparr>chat_ID = ''id-1'', chat_Object = ''chat.completion'', chat_Model = ''m'',
      chat_SystemFingerprint = [],
      chat_Choices =
        [\<lparr>choice_Index = 0, choice_FinishReason = Some ''stop'', choice_LogProbs = None,
          choice_TextCompletionResponseChoice = None,
          choice_ChatNonStreamResponseChoice =
            Some \<lparr>nsc_Message = Some \<lparr>msg_Content = Some \<lparr>cmc_ContentStr = Some ''Hi there''\<rparr>\<rparr>\<rparr>,
          choice_ChatStreamResponseChoice = None\<rparr>],
      chat_Usage = None,
      chat_ExtraFields =
        \<lparr>ef_Provider = ''huggingface'', ef_ModelRequested = [], ef_ModelDeployment = [],
         ef_RequestType = ChatCompletionRequest, ef_Latency = 7, ef_RawResponse = None\<rparr>\<rparr>"

definition keepAlive :: BifrostStream where
  "keepAlive =
     \<lparr>stream_BifrostTextCompletionResponse = None, stream_BifrostChatResponse = None\<rparr>"

definition deltaHi :: BifrostChatResponse where
  "deltaHi =
     \<lparr>chat_ID = ''id-2'', chat_Object = ''chat.completion.chunk'', chat_Model = ''b'',
      chat_SystemFingerprint = [],
      chat_Choices =
        [\<lparr>choice_Index = 0, choice_FinishReason = None, choice_LogProbs = None,
          choice_TextCompletionResponseChoice = None,
          choice_ChatNonStreamResponseChoice = None,
          choice_ChatStreamResponseChoice =
            Some \<lparr>sc_Delta = Some \<lparr>delta_Content = Some ''Hi''\<rparr>\<rparr>\<rparr>],
      chat_Usage = None,
      chat_ExtraFields =
        \<lparr>ef_Provider = ''huggingface'', ef_ModelRequested = [], ef_ModelDeployment = [],
         ef_RequestType = ChatCompletionStreamRequest, ef_Latency = 3, ef_RawResponse = None\<rparr>\<rparr>"

definition deltaMessage :: BifrostStream where
  "deltaMessage =
     \<lparr>stream_BifrostTextCompletionResponse = None, stream_BifrostChatResponse = Some deltaHi\<rparr>"

definition text2textEntry :: huggingFaceModelHubEntry where
  "text2textEntry =
     \<lparr>hub_ID = ''google/flan-t5-base'', hub_ModelID = ''google/flan-t5-base'',
      hub_Author = ''google'', hub_PipelineTag = [], hub_Tags = [''text2text-generation''],
      hub_Private = False, hub_Gated = False,
      hub_CardData = \<lparr>card_ModelName = [], card_ShortDescription = [],
                       card_Description = [], card_Summary = []\<rparr>\<rparr>"

definition textRequest :: "string \<Rightarrow> BifrostEmbeddingRequest" where
  "textRequest str =
     \<lparr>ereq_Model = ''m'',
      ereq_Input = Some \<lparr>ein_Text = Some str, ein_Texts = None\<rparr>,
      ereq_Params = None\<rparr>"

definition textsRequest :: "string list \<Rightarrow> BifrostEmbeddingRequest" where
  "textsRequest strs =
     \<lparr>ereq_Model = ''m'',
      ereq_Input = Some \<lparr>ein_Text = None, ein_Texts = Some strs\<rparr>,
      ereq_Params = None\<rparr>"

definition paramsRequest :: BifrostEmbeddingRequest where
  "paramsRequest =
     \<lparr>ereq_Model = ''m'',
      ereq_Input = Some \<lparr>ein_Text = Some ''abc'', ein_Texts = None\<rparr>,
      ereq_Params = Some \<lparr>ep_Normalize = Some True, ep_PromptName = Some ''query'',
                           ep_Truncate = Some True\<rparr>\<rparr>"

definition bothFields :: huggingFaceErrorResponse where
  "bothFields = \<lparr>err_Error = ''Model is loading'', err_Message = ''Service unavailable''\<rparr>"

definition upstreamError :: BifrostError where
  "upstreamError =
     \<lparr>be_IsBifrostError = False, be_StatusCode = Some 503,
      be_Error = Some \<lparr>errf_Message = ''provider API error''\<rparr>,
      be_ExtraFields = \<lparr>eef_Provider = [], eef_ModelRequested = [],
                         eef_RequestType = UnsetRequestType\<rparr>\<rparr>"

section \<open>Alias resolution\<close>

text \<open>
  The encodings of the white-space runes are prefix-free: the first byte gives the length.
  So a string is trimmed to the empty string exactly when it is white space only.
\<close>

lemma spaceRunes_width: "e \<in> set spaceRunes \<Longrightarrow> e \<noteq> [] \<and> length e = runeWidth (hd e)"
  by (auto simp: spaceRunes_def runeWidth_def)

lemma spaceRunes_prefix_unique:
  assumes e: "e \<in> set spaceRunes" and w: "w \<in> set spaceRunes"
    and pre: "take (length e) (w @ r) = e"
  shows "e = w"
proof -
  from e w have ne: "e \<noteq> []" "w \<noteq> []" by (auto dest: spaceRunes_width)
  from pre ne have "hd e = hd (take (length e) (w @ r))" by simp
  also from ne have "\<dots> = hd w"
    by (cases e; cases w) auto
  finally have "runeWidth (hd e) = runeWidth (hd w)" by simp
  with spaceRunes_width [OF e] spaceRunes_width [OF w] have len: "length e = length w"
    by simp
  with pre show ?thesis by simp
qed

lemma leadingSpace_rune:
  assumes w: "w \<in> set spaceRunes"
  shows "leadingSpace (w @ r) = Some w"
proof (cases "leadingSpace (w @ r)")
  case None
  with w show ?thesis by (auto simp: leadingSpace_def find_None_iff)
next
  case (Some e)
  then have "e \<in> set spaceRunes" "take (length e) (w @ r) = e"
    by (auto simp: leadingSpace_def find_Some_iff)
  with w have "e = w" by (auto intro: spaceRunes_prefix_unique)
  with Some show ?thesis by simp
qed

lemma TrimLeft_concat: "set ws \<subseteq> set spaceRunes \<Longrightarrow> TrimLeft (concat ws @ r) = TrimLeft r"
proof (induction ws)
  case Nil
  show ?case by simp
next
  case (Cons w ws)
  then have w: "w \<in> set spaceRunes" and ws: "set ws \<subseteq> set spaceRunes" by auto
  have "TrimLeft (concat (w # ws) @ r) = TrimLeft (drop (length w) (w @ (concat ws @ r)))"
    using leadingSpace_rune [OF w, of "concat ws @ r"]
    by (subst TrimLeft.simps) simp
  also have "\<dots> = TrimLeft r" using Cons.IH [OF ws] by simp
  finally show ?case .
qed

lemma trailingSpace_Nil: "trailingSpace [] = None"
  by (auto simp: trailingSpace_def find_None_iff dest: spaceRunes_nonempty)

lemma leadingSpace_Nil: "leadingSpace [] = None"
  by (auto simp: leadingSpace_def find_None_iff dest: spaceRunes_nonempty)

lemma TrimLeft_Nil: "TrimLeft [] = []"
  by (subst TrimLeft.simps) (simp add: leadingSpace_Nil)

lemma TrimRight_Nil: "TrimRight [] = []"
  by (subst TrimRight.simps) (simp add: trailingSpace_Nil)

lemma TrimLeft_decomp:
  "\<exists>ws. set ws \<subseteq> set spaceRunes \<and> s = concat ws @ TrimLeft s \<and> leadingSpace (TrimLeft s) = None"
proof (induction s rule: TrimLeft.induct)
  case (1 s)
  show ?case
  proof (cases "leadingSpace s")
    case None
    then have "TrimLeft s = s" by (subst TrimLeft.simps) simp
    with None have "set [] \<subseteq> set spaceRunes \<and> s = concat [] @ TrimLeft s \<and>
        leadingSpace (TrimLeft s) = None" by simp
    then show ?thesis by blast
  next
    case (Some e)
    then have e: "e \<in> set spaceRunes" and pre: "take (length e) s = e"
      by (auto simp: leadingSpace_def find_Some_iff)
    from Some have eq: "TrimLeft s = TrimLeft (drop (length e) s)"
      by (subst TrimLeft.simps) simp
    from "1.IH" [OF Some] obtain ws where ws: "set ws \<subseteq> set spaceRunes"
      and d: "drop (length e) s = concat ws @ TrimLeft (drop (length e) s)"
      and n: "leadingSpace (TrimLeft (drop (length e) s)) = None" by blast
    have "s = take (length e) s @ drop (length e) s" by simp
    also have "\<dots> = e @ concat ws @ TrimLeft s" using pre d eq by simp
    finally have "s = concat (e # ws) @ TrimLeft s" by simp
    moreover have "set (e # ws) \<subseteq> set spaceRunes" using e ws by simp
    moreover have "leadingSpace (TrimLeft s) = None" using n eq by simp
    ultimately show ?thesis by blast
  qed
qed

lemma TrimRight_decomp:
  "\<exists>ws. set ws \<subseteq> set spaceRunes \<and> s = TrimRight s @ concat ws"
proof (induction s rule: TrimRight.induct)
  case (1 s)
  show ?case
  proof (cases "trailingSpace s")
    case None
    then have "TrimRight s = s" by (subst TrimRight.simps) simp
    then have "set [] \<subseteq> set spaceRunes \<and> s = TrimRight s @ concat []" by simp
    then show ?thesis by blast
  next
    case (Some e)
    then have e: "e \<in> set spaceRunes" and le: "length e \<le> length s"
      and suf: "drop (length s - length e) s = e"
      by (auto simp: trailingSpace_def find_Some_iff)
    from Some have eq: "TrimRight s = TrimRight (take (length s - length e) s)"
      by (subst TrimRight.simps) simp
    from "1.IH" [OF Some] obtain ws where ws: "set ws \<subseteq> set spaceRunes"
      and d: "take (length s - length e) s = TrimRight (take (length s - length e) s) @ concat ws"
      by blast
    have "s = take (length s - length e) s @ drop (length s - length e) s" by simp
    also have "\<dots> = (TrimRight s @ concat ws) @ e" using suf d eq by simp
    finally have "s = TrimRight s @ concat (ws @ [e])" by simp
    moreover have "set (ws @ [e]) \<subseteq> set spaceRunes" using e ws by simp
    ultimately show ?thesis by blast
  qed
qed

lemma concat_runes_leading:
  assumes "set ws \<subseteq> set spaceRunes" and "concat ws \<noteq> []"
  shows "leadingSpace (concat ws) \<noteq> None"
proof (cases ws)
  case Nil
  with assms show ?thesis by simp
next
  case (Cons w rest)
  with assms have "w \<in> set spaceRunes" by simp
  from leadingSpace_rune [OF this, of "concat rest"] Cons show ?thesis by simp
qed

lemma TrimSpace_empty_iff: "TrimSpace s = [] \<longleftrightarrow> whiteSpaceOnly s"
proof
  assume empty: "TrimSpace s = []"
  obtain ws where ws: "set ws \<subseteq> set spaceRunes" and s: "s = concat ws @ TrimLeft s"
    and n: "leadingSpace (TrimLeft s) = None"
    using TrimLeft_decomp [of s] by blast
  obtain vs where vs: "set vs \<subseteq> set spaceRunes"
    and u: "TrimLeft s = TrimRight (TrimLeft s) @ concat vs"
    using TrimRight_decomp [of "TrimLeft s"] by blast
  from u empty have c: "TrimLeft s = concat vs" by (simp add: TrimSpace_def)
  have "TrimLeft s = []"
  proof (rule ccontr)
    assume "TrimLeft s \<noteq> []"
    with c have "concat vs \<noteq> []" by simp
    from concat_runes_leading [OF vs this] n c show False by simp
  qed
  with s have "s = concat ws" by simp
  with ws show "whiteSpaceOnly s" by (auto simp: whiteSpaceOnly_def)
next
  assume "whiteSpaceOnly s"
  then obtain ws where ws: "set ws \<subseteq> set spaceRunes" and s: "s = concat ws"
    by (auto simp: whiteSpaceOnly_def)
  from TrimLeft_concat [OF ws, of "[]"] s have "TrimLeft s = []"
    by (simp add: TrimLeft_Nil)
  then show "TrimSpace s = []" by (simp add: TrimSpace_def TrimRight_Nil)
qed

lemma TrimSpace_b: "TrimSpace ''b'' = ''b''"
  by code_simp

lemma not_whiteSpaceOnly_b: "\<not> whiteSpaceOnly ''b''"
  using TrimSpace_empty_iff [of "''b''"] by (simp add: TrimSpace_b)

lemma TrimSpace_blank: "TrimSpace [CHR 0x20, CHR 0x09, CHR 0xC2, CHR 0xA0] = []"
  by code_simp

lemma whiteSpaceOnly_blank: "whiteSpaceOnly [CHR 0x20, CHR 0x09, CHR 0xC2, CHR 0xA0]"
  using TrimSpace_empty_iff [of "[CHR 0x20, CHR 0x09, CHR 0xC2, CHR 0xA0]"]
  by (simp add: TrimSpace_blank)

lemma whiteSpaceOnly_Nil: "whiteSpaceOnly []"
  using TrimSpace_empty_iff [of "[]"] by (simp add: TrimSpace_def TrimLeft_Nil TrimRight_Nil)

text \<open>
  C3. \<open>resolveModelAlias key m\<close> is \<open>(m, false)\<close> when the key has no alias map, when the
  map has no entry for \<open>m\<close>, and when the mapped value is empty or white space only;
  otherwise it is the mapped value together with the flag \<open>mappedValue \<noteq> m\<close>.
\<close>

theorem resolveModelAlias_spec:
  "(key_HuggingFaceKeyConfig key = None \<longrightarrow> resolveModelAlias key m = (m, False)) \<and>
   (\<forall>cfg. key_HuggingFaceKeyConfig key = Some cfg \<longrightarrow>
      (map_of (cfg_Deployments cfg) m = None \<longrightarrow> resolveModelAlias key m = (m, False)) \<and>
      (\<forall>d. map_of (cfg_Deployments cfg) m = Some d \<longrightarrow>
         (whiteSpaceOnly d \<longrightarrow> resolveModelAlias key m = (m, False)) \<and>
         (\<not> whiteSpaceOnly d \<longrightarrow> resolveModelAlias key m = (d, d \<noteq> m))))"
proof -
  have none: "map_of ds m = None" if "length ds = 0" for ds :: "(string \<times> string) list"
    using that by simp
  show ?thesis
    unfolding resolveModelAlias_def TrimSpace_empty_iff [symmetric]
    by (auto split: option.splits dest: none)
qed

theorem resolveModelAlias_spec_witness:
  "resolveModelAlias noAliasKey ''a'' = (''a'', False) \<and>
   resolveModelAlias aliasKey ''a'' = (''b'', True) \<and>
   resolveModelAlias aliasKey ''c'' = (''c'', False) \<and>
   resolveModelAlias emptyAliasKey ''a'' = (''a'', False) \<and>
   resolveModelAlias blankAliasKey ''a'' = (''a'', False)"
  using
    resolveModelAlias_spec [of noAliasKey "''a''"]
    resolveModelAlias_spec [of aliasKey "''a''"]
    resolveModelAlias_spec [of aliasKey "''c''"]
    resolveModelAlias_spec [of emptyAliasKey "''a''"]
    resolveModelAlias_spec [of blankAliasKey "''a''"]
  by (simp add: noAliasKey_def aliasKey_def emptyAliasKey_def blankAliasKey_def
      whiteSpaceOnly_Nil whiteSpaceOnly_blank not_whiteSpaceOnly_b)

section \<open>Chat response to text response\<close>

lemma convertChoices_take:
  "length out = i + length cs \<Longrightarrow>
   convertChoices i cs out = take i out @ map textChoice cs"
proof (induction cs arbitrary: i out)
  case Nil
  then show ?case by simp
next
  case (Cons c cs)
  let ?out = "out[i := textChoice c]"
  have len: "length ?out = Suc i + length cs" using Cons.prems by simp
  have "convertChoices i (c # cs) out = convertChoices (Suc i) cs ?out"
    by (simp add: textChoice_def)
  also have "\<dots> = take (Suc i) ?out @ map textChoice cs"
    by (rule Cons.IH [OF len])
  also have "take (Suc i) ?out = take i out @ [textChoice c]"
    using Cons.prems by (simp add: take_Suc_conv_app_nth)
  finally show ?case by simp
qed

lemma convertChoices_map:
  "convertChoices 0 cs (replicate (length cs) z) = map textChoice cs"
  by (simp add: convertChoices_take)

lemma choiceText_cases:
  "choiceText choice =
     (case messageContent choice of
        Some s \<Rightarrow> s
      | None \<Rightarrow> (case deltaContent choice of Some d \<Rightarrow> d | None \<Rightarrow> []))"
  by (auto simp: choiceText_def messageContent_def deltaContent_def
           split: option.splits Option.bind_splits)

text \<open>
  C4. The text-completion response derived from a chat response has one choice per chat
  choice, with the same index, finish reason and log-probabilities, and a single \<open>Text\<close>:
  the content string of the choice's message if it is there, else the content of its delta
  if it is there, else the empty string. A text-completion request is turned into a chat
  request with one message, whose content is the prompt: for the prompt "Hello" the content
  is "Hello", and a chat response whose first choice says "Hi there" gives the text
  "Hi there" (the example that follows the theorem).
\<close>

theorem convertChatToTextResponse_spec:
  "creq_Input (convertTextToChatRequest r) =
     [\<lparr>msg_Content = Some \<lparr>cmc_ContentStr = Some (treq_Input r)\<rparr>\<rparr>] \<and>
   (\<exists>t. convertChatToTextResponse (Some c) rq rs = Some t \<and>
      length (text_Choices t) = length (chat_Choices c) \<and>
      (\<forall>i<length (chat_Choices c).
         choice_Index (text_Choices t ! i) = choice_Index (chat_Choices c ! i) \<and>
         choice_FinishReason (text_Choices t ! i) = choice_FinishReason (chat_Choices c ! i) \<and>
         choice_LogProbs (text_Choices t ! i) = choice_LogProbs (chat_Choices c ! i) \<and>
         choice_ChatNonStreamResponseChoice (text_Choices t ! i) = None \<and>
         choice_ChatStreamResponseChoice (text_Choices t ! i) = None \<and>
         choice_TextCompletionResponseChoice (text_Choices t ! i) =
           Some \<lparr>tcc_Text = Some
             (case messageContent (chat_Choices c ! i) of
                Some s \<Rightarrow> s
              | None \<Rightarrow>
                  (case deltaContent (chat_Choices c ! i) of Some d \<Rightarrow> d | None \<Rightarrow> []))\<rparr>))"
proof -
  have req: "creq_Input (convertTextToChatRequest r) =
      [\<lparr>msg_Content = Some \<lparr>cmc_ContentStr = Some (treq_Input r)\<rparr>\<rparr>]"
    by (simp add: convertTextToChatRequest_def ToBifrostChatRequest_def)
  obtain t where t: "convertChatToTextResponse (Some c) rq rs = Some t"
    and choices: "text_Choices t = map textChoice (chat_Choices c)"
    by (simp add: convertChatToTextResponse_def convertChoices_map)
  have "\<forall>i<length (chat_Choices c).
         choice_Index (text_Choices t ! i) = choice_Index (chat_Choices c ! i) \<and>
         choice_FinishReason (text_Choices t ! i) = choice_FinishReason (chat_Choices c ! i) \<and>
         choice_LogProbs (text_Choices t ! i) = choice_LogProbs (chat_Choices c ! i) \<and>
         choice_ChatNonStreamResponseChoice (text_Choices t ! i) = None \<and>
         choice_ChatStreamResponseChoice (text_Choices t ! i) = None \<and>
         choice_TextCompletionResponseChoice (text_Choices t ! i) =
           Some \<lparr>tcc_Text = Some
             (case messageContent (chat_Choices c ! i) of
                Some s \<Rightarrow> s
              | None \<Rightarrow>
                  (case deltaContent (chat_Choices c ! i) of Some d \<Rightarrow> d | None \<Rightarrow> []))\<rparr>"
    by (simp add: choices textChoice_def choiceText_cases)
  with t choices req show ?thesis by simp
qed

theorem convertChatToTextResponse_spec_witness:
  "creq_Input (convertTextToChatRequest
      \<lparr>treq_Model = ''m'', treq_Input = ''Hello'', treq_Params = None\<rparr>) =
     [\<lparr>msg_Content = Some \<lparr>cmc_ContentStr = Some ''Hello''\<rparr>\<rparr>] \<and>
   (\<exists>t. convertChatToTextResponse (Some hiThere) ''m'' ''m'' = Some t \<and>
      length (text_Choices t) = 1 \<and>
      choice_Index (text_Choices t ! 0) = 0 \<and>
      choice_FinishReason (text_Choices t ! 0) = Some ''stop'' \<and>
      choice_TextCompletionResponseChoice (text_Choices t ! 0) =
        Some \<lparr>tcc_Text = Some ''Hi there''\<rparr>)"
  using convertChatToTextResponse_spec
    [of "\<lparr>treq_Model = ''m'', treq_Input = ''Hello'', treq_Params = None\<rparr>" hiThere "''m''" "''m''"]
  by (auto simp: hiThere_def messageContent_def)

section \<open>The text-completion stream relay\<close>

lemma relayLoop_append:
  "relayLoop rq rs ms out = out @ map (\<lambda>m. Send (relayMessage rq rs m)) (delivered ms)"
proof (induction ms arbitrary: out)
  case Nil
  show ?case by simp
next
  case (Cons m ms)
  show ?case
  proof (cases m)
    case None
    then show ?thesis by (simp add: Cons.IH)
  next
    case (Some x)
    then show ?thesis by (simp add: Cons.IH)
  qed
qed

lemma decorateResponseMetadata_same:
  "ef_ModelRequested e = rq \<Longrightarrow> ef_ModelDeployment e = rs \<Longrightarrow>
   decorateResponseMetadata e rq rs = e"
  by (auto simp: decorateResponseMetadata_def Let_def)

lemma relayMessage_no_chat:
  "stream_BifrostChatResponse m = None \<Longrightarrow> relayMessage rq rs m = m"
  by (simp add: relayMessage_def)

lemma relayMessage_chat:
  assumes "stream_BifrostChatResponse m = Some c"
  shows "\<exists>t. convertChatToTextResponse (Some c) rq rs = Some t \<and>
     relayMessage rq rs m =
       m\<lparr>stream_BifrostTextCompletionResponse :=
            Some (t\<lparr>text_ExtraFields :=
                      (text_ExtraFields t)\<lparr>ef_RequestType := TextCompletionStreamRequest\<rparr>\<rparr>),
         stream_BifrostChatResponse := None\<rparr>"
proof -
  obtain t where t: "convertChatToTextResponse (Some c) rq rs = Some t"
    and rq: "ef_ModelRequested (text_ExtraFields t) = rq"
    and rs: "ef_ModelDeployment (text_ExtraFields t) = rs"
    by (simp add: convertChatToTextResponse_def)
  let ?e = "(text_ExtraFields t)\<lparr>ef_RequestType := TextCompletionStreamRequest\<rparr>"
  have "decorateResponseMetadata ?e rq rs = ?e"
    by (rule decorateResponseMetadata_same) (simp_all add: rq rs)
  with assms t show ?thesis
    by (simp add: relayMessage_def Let_def)
qed

text \<open>
  C1, as the code has it. For an upstream stream that delivers the messages \<open>ms\<close> and then
  closes, the relay sends one message for every upstream message that is not \<open>nil\<close>, in
  order, and then closes the output channel: one \<open>Close\<close>, the last event. A \<open>nil\<close>
  message is skipped. A message without a chat response is sent as it is; in a message with
  a chat response the chat response is taken out and its text-completion translation put
  in, with the request kind \<open>TextCompletionStreamRequest\<close>.
\<close>

lemma sentMessages_sends: "sentMessages (map Send xs @ es) = xs @ sentMessages es"
  by (induction xs) simp_all

lemma closes_sends: "closes (map Send xs @ es) = closes es"
  by (induction xs) simp_all

theorem textStreamRelay_trace:
  "textStreamRelay rq rs ms =
     map Send (map (relayMessage rq rs) (delivered ms)) @ [Close] \<and>
   sentMessages (textStreamRelay rq rs ms) = map (relayMessage rq rs) (delivered ms) \<and>
   closes (textStreamRelay rq rs ms) = 1 \<and>
   last (textStreamRelay rq rs ms) = Close \<and>
   (stream_BifrostChatResponse m = None \<longrightarrow> relayMessage rq rs m = m) \<and>
   (\<forall>c. stream_BifrostChatResponse m = Some c \<longrightarrow>
      (\<exists>t. convertChatToTextResponse (Some c) rq rs = Some t \<and>
         relayMessage rq rs m =
           m\<lparr>stream_BifrostTextCompletionResponse :=
                Some (t\<lparr>text_ExtraFields :=
                          (text_ExtraFields t)\<lparr>ef_RequestType := TextCompletionStreamRequest\<rparr>\<rparr>),
             stream_BifrostChatResponse := None\<rparr>))"
proof -
  have trace: "textStreamRelay rq rs ms =
      map Send (map (relayMessage rq rs) (delivered ms)) @ [Close]"
    by (simp add: textStreamRelay_def relayLoop_append)
  have sent: "sentMessages (textStreamRelay rq rs ms) = map (relayMessage rq rs) (delivered ms)"
    using sentMessages_sends [of "map (relayMessage rq rs) (delivered ms)" "[Close]"]
    by (simp add: trace)
  have closed: "closes (textStreamRelay rq rs ms) = 1"
    using closes_sends [of "map (relayMessage rq rs) (delivered ms)" "[Close]"]
    by (simp add: trace)
  have final: "last (textStreamRelay rq rs ms) = Close"
    unfolding trace by simp
  from trace sent closed final relayMessage_chat [of m _ rq rs] show ?thesis
    by (simp add: relayMessage_no_chat)
qed

theorem textStreamRelay_trace_witness:
  "textStreamRelay ''a'' ''b'' [Some keepAlive, None, Some deltaMessage] =
     [Send keepAlive, Send (relayMessage ''a'' ''b'' deltaMessage), Close] \<and>
   stream_BifrostChatResponse (relayMessage ''a'' ''b'' deltaMessage) = None \<and>
   map_option (\<lambda>t. ef_RequestType (text_ExtraFields t))
     (stream_BifrostTextCompletionResponse (relayMessage ''a'' ''b'' deltaMessage)) =
     Some TextCompletionStreamRequest \<and>
   map_option (\<lambda>t. map choice_TextCompletionResponseChoice (text_Choices t))
     (stream_BifrostTextCompletionResponse (relayMessage ''a'' ''b'' deltaMessage)) =
     Some [Some \<lparr>tcc_Text = Some ''Hi''\<rparr>]"
proof -
  have k: "stream_BifrostChatResponse keepAlive = None"
    by (simp add: keepAlive_def)
  have d: "stream_BifrostChatResponse deltaMessage = Some deltaHi"
    by (simp add: deltaMessage_def)
  from textStreamRelay_trace [of "''a''" "''b''" "[Some keepAlive, None, Some deltaMessage]" keepAlive] k
  have trace: "textStreamRelay ''a'' ''b'' [Some keepAlive, None, Some deltaMessage] =
      [Send keepAlive, Send (relayMessage ''a'' ''b'' deltaMessage), Close]"
    by simp
  from textStreamRelay_trace [of "''a''" "''b''" "[]" deltaMessage] d
  obtain t where t: "convertChatToTextResponse (Some deltaHi) ''a'' ''b'' = Some t"
    and r: "relayMessage ''a'' ''b'' deltaMessage =
       deltaMessage\<lparr>stream_BifrostTextCompletionResponse :=
            Some (t\<lparr>text_ExtraFields :=
                      (text_ExtraFields t)\<lparr>ef_RequestType := TextCompletionStreamRequest\<rparr>\<rparr>),
         stream_BifrostChatResponse := None\<rparr>"
    by auto
  from t have "map choice_TextCompletionResponseChoice (text_Choices t) =
      [Some \<lparr>tcc_Text = Some ''Hi''\<rparr>]"
    by (auto simp: convertChatToTextResponse_def deltaHi_def zeroChoice_def choiceText_def)
  with trace r show ?thesis by simp
qed

text \<open>
  C1 as stated fails: an upstream stream that delivers one \<open>nil\<close> message gives no output
  message, not one.
\<close>

theorem textStreamRelay_nil_counterexample:
  "length (sentMessages (textStreamRelay ''m'' ''m'' [None :: BifrostStream option]))
     \<noteq> length [None :: BifrostStream option]"
  by (simp add: textStreamRelay_def)

section \<open>Resolved deployment in the response metadata\<close>

text \<open>
  C5 fails on the text-completion path. A key without aliases resolves the model \<open>m\<close> to
  itself, and \<open>convertChatToTextResponse\<close> then records \<open>m\<close> as the deployment too: the
  text-completion response has its deployment set although it equals the requested model.
\<close>

theorem text_response_deployment_equals_requested:
  "prepareChatRequest \<lparr>creq_Model = ''m'', creq_Input = [], creq_Params = None\<rparr> noAliasKey =
     (\<lparr>creq_Model = ''m'', creq_Input = [], creq_Params = None\<rparr>, ''m'') \<and>
   map_option (\<lambda>t. (ef_ModelRequested (text_ExtraFields t), ef_ModelDeployment (text_ExtraFields t)))
     (convertChatToTextResponse (Some c) ''m'' ''m'') = Some (''m'', ''m'') \<and>
   (case TextCompletion None (\<lambda>r. Inr c) noAliasKey
           \<lparr>treq_Model = ''m'', treq_Input = ''Hello'', treq_Params = None\<rparr> of
      Inr (Some t) \<Rightarrow>
        ef_ModelRequested (text_ExtraFields t) = ''m'' \<and>
        ef_ModelDeployment (text_ExtraFields t) = ''m''
    | _ \<Rightarrow> False)"
  by (simp add: prepareChatRequest_def resolveModelAlias_def noAliasKey_def
      convertChatToTextResponse_def TextCompletion_def convertTextToChatRequest_def
      ToBifrostChatRequest_def)

section \<open>The model handed to the transport\<close>

text \<open>
  C2 fails for the responses kind. With the alias \<open>a \<mapsto> b\<close> on the key, \<open>Responses\<close>
  resolves \<open>a\<close> to \<open>b\<close> and records \<open>b\<close> as the deployment, and hands the handler the
  request with the model \<open>a\<close>; \<open>ChatCompletion\<close> hands its handler the model \<open>b\<close>.
\<close>

theorem Responses_hands_over_requested_model:
  "resolveModelAlias aliasKey ''a'' = (''b'', True) \<and>
   Responses None transport aliasKey \<lparr>rreq_Model = ''a'', rreq_Input = None\<rparr> =
     (case transport \<lparr>rreq_Model = ''a'', rreq_Input = None\<rparr> of
        Inl e \<Rightarrow> Inl e
      | Inr response \<Rightarrow>
          Inr (response\<lparr>rresp_ExtraFields :=
                 (rresp_ExtraFields response)
                   \<lparr>ef_ModelRequested := ''a'', ef_ModelDeployment := ''b''\<rparr>\<rparr>)) \<and>
   ChatCompletion None chatTransport aliasKey
       \<lparr>creq_Model = ''a'', creq_Input = [], creq_Params = None\<rparr> =
     (case chatTransport \<lparr>creq_Model = ''b'', creq_Input = [], creq_Params = None\<rparr> of
        Inl e \<Rightarrow> Inl e
      | Inr response \<Rightarrow>
          Inr (response\<lparr>chat_ExtraFields :=
                 (chat_ExtraFields response)
                   \<lparr>ef_ModelRequested := ''a'', ef_ModelDeployment := ''b''\<rparr>\<rparr>))"
  by (simp add: Responses_def ChatCompletion_def prepareEmbeddingRequest_def
      prepareChatRequest_def resolveModelAlias_def aliasKey_def TrimSpace_b
      decorateResponseMetadata_def split: sum.splits)

section \<open>Capabilities of a catalog entry\<close>

text \<open>
  C6 fails for the tag \<open>text2text-generation\<close>. As the pipeline tag it gives chat,
  text completion and responses; as a free-form tag it gives nothing, since the \<open>switch\<close>
  over the tags does not list it, and an entry that has it as its only recognisable tag is
  dropped from the catalog.
\<close>

theorem text2text_generation_tag_dropped:
  "deriveSupportedMethods ''text2text-generation'' [] =
     {ChatCompletionRequest, TextCompletionRequest, ResponsesRequest} \<and>
   deriveSupportedMethods [] [''text-generation''] =
     {ChatCompletionRequest, TextCompletionRequest, ResponsesRequest} \<and>
   deriveSupportedMethods [] [''text2text-generation''] = {} \<and>
   convertHubEntriesToModels [text2textEntry] ''huggingface'' = []"
  by code_simp

section \<open>The token estimate of an embedding response\<close>

lemma countTexts_sum:
  "countTexts strs count = count + sum_list (map (\<lambda>str. int (length str) div 4) strs)"
  by (induction strs arbitrary: count) simp_all

lemma floor_one: "0 \<le> c \<Longrightarrow> (if c = 0 then 1 else c) = max 1 (c::int)"
  by auto

lemma quarters_nonneg: "0 \<le> sum_list (map (\<lambda>str. int (length str) div 4) strs)"
  by (induction strs) simp_all

lemma estimateTokens_inputs:
  "estimateTokens request =
     (if ereq_Input request = None then 0
      else max 1 (sum_list (map (\<lambda>str. int (length str) div 4) (requestInputs request))))"
proof (cases "ereq_Input request")
  case None
  then show ?thesis by (simp add: estimateTokens_def)
next
  case (Some inp)
  show ?thesis
  proof (cases "ein_Text inp")
    case single: (Some str)
    have "0 \<le> int (length str) div 4" by simp
    from floor_one [OF this] Some single show ?thesis
      by (simp add: estimateTokens_def requestInputs_def Let_def)
  next
    case None
    show ?thesis
    proof (cases "ein_Texts inp")
      case several: (Some strs)
      from floor_one [OF quarters_nonneg [of strs]] Some None several show ?thesis
        by (simp add: estimateTokens_def requestInputs_def countTexts_sum Let_def)
    next
      case noTexts: None
      from Some None noTexts show ?thesis
        by (simp add: estimateTokens_def requestInputs_def)
    qed
  qed
qed

text \<open>
  C7, as the code has it. When the upstream response is not empty, the usage of the
  canonical response has the local estimate as its prompt and as its total token count.
  The estimate is 0 for a request without input; otherwise it is the sum, over the inputs,
  of the length of the input in bytes divided by 4 (rounded down, input by input), and 1
  when that sum is 0. The input "abcdefgh" gives 2, the empty input and the input of three
  blanks give 1 (the example that follows the theorem).
\<close>

theorem embedding_usage_estimate:
  "(embeddings \<noteq> [] \<longrightarrow>
      eresp_Usage (convertFromHuggingFaceEmbeddingResponse (Some embeddings) request) =
        Some \<lparr>usage_PromptTokens = estimateTokens request,
              usage_TotalTokens = estimateTokens request\<rparr>) \<and>
   estimateTokens request =
     (if ereq_Input request = None then 0
      else max 1 (sum_list (map (\<lambda>str. int (length str) div 4) (requestInputs request))))"
  by (simp add: estimateTokens_inputs convertFromHuggingFaceEmbeddingResponse_def Let_def)

theorem embedding_usage_estimate_witness:
  "eresp_Usage (convertFromHuggingFaceEmbeddingResponse (Some [[]]) (textRequest ''abcdefgh'')) =
     Some \<lparr>usage_PromptTokens = 2, usage_TotalTokens = 2\<rparr> \<and>
   eresp_Usage (convertFromHuggingFaceEmbeddingResponse (Some [[]]) (textRequest [])) =
     Some \<lparr>usage_PromptTokens = 1, usage_TotalTokens = 1\<rparr> \<and>
   eresp_Usage (convertFromHuggingFaceEmbeddingResponse (Some [[]]) (textRequest ''   '')) =
     Some \<lparr>usage_PromptTokens = 1, usage_TotalTokens = 1\<rparr> \<and>
   eresp_Usage (convertFromHuggingFaceEmbeddingResponse (Some [[]])
       (textsRequest [''abcdefgh'', ''abcd''])) =
     Some \<lparr>usage_PromptTokens = 3, usage_TotalTokens = 3\<rparr>"
  using
    embedding_usage_estimate [of "[[]]" "textRequest ''abcdefgh''"]
    embedding_usage_estimate [of "[[]]" "textRequest []"]
    embedding_usage_estimate [of "[[]]" "textRequest ''   ''"]
    embedding_usage_estimate [of "[[]]" "textsRequest [''abcdefgh'', ''abcd'']"]
  by (simp add: textRequest_def textsRequest_def requestInputs_def)

text \<open>
  C7 as stated fails: for the four inputs "ab", 8 characters in all, the spec's estimate is
  \<open>max(1, 8 / 4) = 2\<close>, and the code's is 1, each input counting \<open>2 / 4 = 0\<close>.
\<close>

theorem embedding_usage_estimate_counterexample:
  "specEstimate (textsRequest [''ab'', ''ab'', ''ab'', ''ab'']) = 2 \<and>
   eresp_Usage (convertFromHuggingFaceEmbeddingResponse (Some [[]])
       (textsRequest [''ab'', ''ab'', ''ab'', ''ab''])) =
     Some \<lparr>usage_PromptTokens = 1, usage_TotalTokens = 1\<rparr> \<and>
   eresp_Usage (convertFromHuggingFaceEmbeddingResponse (Some [[]])
       (textsRequest [''ab'', ''ab'', ''ab'', ''ab''])) \<noteq>
     Some \<lparr>usage_PromptTokens = specEstimate (textsRequest [''ab'', ''ab'', ''ab'', ''ab'']),
           usage_TotalTokens = specEstimate (textsRequest [''ab'', ''ab'', ''ab'', ''ab''])\<rparr>"
  by (simp add: convertFromHuggingFaceEmbeddingResponse_def estimateTokens_def specEstimate_def
      requestInputs_def textsRequest_def)

section \<open>The message of an upstream error\<close>

lemma TrimSpace_unavailable: "TrimSpace ''Service unavailable'' = ''Service unavailable''"
  by code_simp

text \<open>
  C8 fails at the embedding error site. For an error body with both fields,
  \<open>parseHuggingFaceEmbeddingError\<close> takes the field \<open>error\<close>, whatever the error it starts
  from; \<open>handleModelHubError\<close> takes the field \<open>message\<close> for the same body.
\<close>

theorem embedding_error_prefers_error_field:
  "be_Error (parseHuggingFaceEmbeddingError huggingFace bifrostErr bothFields model) =
     Some \<lparr>errf_Message = ''Model is loading''\<rparr> \<and>
   be_Error (handleModelHubError providerKey statusCode body bothFields) =
     Some \<lparr>errf_Message = ''Service unavailable''\<rparr>"
  by (simp add: parseHuggingFaceEmbeddingError_def handleModelHubError_def bothFields_def
      TrimSpace_unavailable)

theorem embedding_error_prefers_error_field_witness:
  "be_Error (parseHuggingFaceEmbeddingError ''huggingface'' upstreamError bothFields ''m'') =
     Some \<lparr>errf_Message = ''Model is loading''\<rparr> \<and>
   be_Error (handleModelHubError ''huggingface'' 503 ''{}'' bothFields) =
     Some \<lparr>errf_Message = ''Service unavailable''\<rparr>"
  using embedding_error_prefers_error_field
    [of "''huggingface''" upstreamError "''m''" "''huggingface''" 503 "''{}''"]
  by simp

section \<open>The wire request of an embedding request\<close>

text \<open>
  C9, as the code has it. The wire request has the string of a request with a single
  string as its inputs, and the list of a request with a list (and no inputs when the
  request has neither); its normalize, prompt-name, truncate and truncation-direction
  parameters are absent, whatever the parameters of the request.
\<close>

theorem embedding_request_shape:
  "hf_Inputs (convertToHuggingFaceEmbeddingRequest request) =
     (case ereq_Input request of
        None \<Rightarrow> InputsNil
      | Some inp \<Rightarrow>
          (case ein_Text inp of
             Some str \<Rightarrow> InputsString str
           | None \<Rightarrow> (case ein_Texts inp of Some strs \<Rightarrow> InputsList strs | None \<Rightarrow> InputsNil))) \<and>
   hf_Normalize (convertToHuggingFaceEmbeddingRequest request) = None \<and>
   hf_PromptName (convertToHuggingFaceEmbeddingRequest request) = None \<and>
   hf_Truncate (convertToHuggingFaceEmbeddingRequest request) = None \<and>
   hf_TruncDirection (convertToHuggingFaceEmbeddingRequest request) = None"
  by (simp add: convertToHuggingFaceEmbeddingRequest_def split: option.splits)

text \<open>
  C9 as stated fails: a request whose parameters ask for normalization gives a wire request
  without the normalize parameter.
\<close>

theorem embedding_params_counterexample:
  "hf_Inputs (convertToHuggingFaceEmbeddingRequest paramsRequest) = InputsString ''abc'' \<and>
   Option.bind (ereq_Params paramsRequest) ep_Normalize = Some True \<and>
   hf_Normalize (convertToHuggingFaceEmbeddingRequest paramsRequest) \<noteq> Some True"
  by (simp add: convertToHuggingFaceEmbeddingRequest_def paramsRequest_def)

section \<open>An empty upstream embedding response\<close>

text \<open>
  C10. When the upstream response is an empty array of vectors (or \<open>nil\<close>), the canonical
  response has an empty data list and no usage record: the token estimate is not applied.
  This is so for the response \<open>Embedding\<close> returns as well.
\<close>

theorem empty_embedding_response_no_usage:
  "eresp_Data (convertFromHuggingFaceEmbeddingResponse (Some []) request) = [] \<and>
   eresp_Usage (convertFromHuggingFaceEmbeddingResponse (Some []) request) = None \<and>
   eresp_Data (convertFromHuggingFaceEmbeddingResponse None request) = [] \<and>
   eresp_Usage (convertFromHuggingFaceEmbeddingResponse None request) = None \<and>
   (case Embedding None baseURL providerKey sendRaw (\<lambda>url hfRequest. Inr ([], latency, raw))
           key request of
      Inl e \<Rightarrow> False
    | Inr response \<Rightarrow> eresp_Data response = [] \<and> eresp_Usage response = None)"
  by (simp add: convertFromHuggingFaceEmbeddingResponse_def Embedding_def Let_def
      split: prod.splits)

end
